theory Spec2Isabelle
  imports Main "HOL-Library.Word"
begin

section \<open>JavaScript values\<close>

text \<open>
  The values the strategy handles: option fields, the parsed JSON payload and the profile
  object. Numbers are the integers from \<open>-2^53\<close> to \<open>2^53 - 1\<close>, held as signed
  words of 54 bits: on these the string form of a number is its plain decimal numeral. An
  object is a plain one, with the standard prototype, given by the list of its own
  properties in insertion order; no value is a function.
\<close>

datatype jsv =
    JUndefined
  | JNull
  | JBool bool
  | JNum "54 word"
  | JStr string
  | JArr "jsv list"
  | JObj "(string \<times> jsv) list"

text \<open>
  What the program can throw or hand to a callback as its error: the \<open>Error\<close> of the
  constructor, the \<open>InternalOAuthError\<close> wrapping a cause, the \<open>SyntaxError\<close> of
  \<open>JSON.parse\<close>, the \<open>TypeError\<close> of a property read on \<open>undefined\<close> or \<open>null\<close>,
  and whatever a foreign function (the base constructor, the completion callback) throws.
\<close>

datatype js_error =
    Error string
  | InternalOAuthError string jsv
  | SyntaxError
  | TypeError
  | Thrown jsv

text \<open>Truthiness, as tested by \<open>if (x)\<close> and \<open>x || y\<close>.\<close>

fun truthy :: "jsv \<Rightarrow> bool" where
  "truthy JUndefined = False"
| "truthy JNull = False"
| "truthy (JBool b) = b"
| "truthy (JNum n) = (n \<noteq> 0)"
| "truthy (JStr s) = (s \<noteq> [])"
| "truthy (JArr xs) = True"
| "truthy (JObj ps) = True"

text \<open>Decimal numerals, for the string form of a number.\<close>

fun digits_of_nat :: "nat \<Rightarrow> string" where
  "digits_of_nat n =
     (if n < 10 then [''0123456789'' ! n]
      else digits_of_nat (n div 10) @ [''0123456789'' ! (n mod 10)])"

declare digits_of_nat.simps [simp del]

definition string_of_int :: "int \<Rightarrow> string" where
  "string_of_int i = (if i < 0 then CHR ''-'' # digits_of_nat (nat (- i)) else digits_of_nat (nat i))"

text \<open>Joining strings with commas, the first error among them winning.\<close>

fun join_results :: "(js_error + string) list \<Rightarrow> js_error + string" where
  "join_results [] = Inr []"
| "join_results (x # xs) =
     (case x of
        Inl e \<Rightarrow> Inl e
      | Inr s \<Rightarrow>
         (case join_results xs of
            Inl e \<Rightarrow> Inl e
          | Inr t \<Rightarrow> Inr (if xs = [] then s else s @ CHR '','' # t)))"

text \<open>
  String coercion, as applied to a property key and to the elements of an array being
  joined. An array is coerced by its \<open>toString\<close>, which joins the coerced elements with
  commas, \<open>undefined\<close> and \<open>null\<close> elements counting as empty. An object is coerced
  by calling its \<open>toString\<close>: the inherited one gives \<open>[object Object]\<close>; an own
  property of that name hides it and, being no function, makes the coercion throw a
  \<open>TypeError\<close>.
\<close>

fun ToString :: "jsv \<Rightarrow> js_error + string" where
  "ToString JUndefined = Inr ''undefined''"
| "ToString JNull = Inr ''null''"
| "ToString (JBool b) = Inr (if b then ''true'' else ''false'')"
| "ToString (JNum n) = Inr (string_of_int (sint n))"
| "ToString (JStr s) = Inr s"
| "ToString (JArr xs) =
     join_results (map (\<lambda>x. if x = JUndefined \<or> x = JNull then Inr [] else ToString x) xs)"
| "ToString (JObj ps) =
     (if map_of ps ''toString'' = None then Inr ''[object Object]'' else Inl TypeError)"

text \<open>
  The method call \<open>x.toString()\<close>: it throws on \<open>undefined\<close> and \<open>null\<close>, and on
  an object whose own \<open>toString\<close> property hides the inherited method.
\<close>

definition toString :: "jsv \<Rightarrow> js_error + string" where
  "toString x = (if x = JUndefined \<or> x = JNull then Inl TypeError else ToString x)"

text \<open>
  Reading a property \<open>x.k\<close>, for the property names this program reads (none of them is
  defined on a built-in prototype): a \<open>TypeError\<close> on \<open>undefined\<close> and \<open>null\<close>,
  the own property of an object, \<open>undefined\<close> otherwise.
\<close>

fun get_prop :: "jsv \<Rightarrow> string \<Rightarrow> js_error + jsv" where
  "get_prop JUndefined k = Inl TypeError"
| "get_prop JNull k = Inl TypeError"
| "get_prop (JObj ps) k = Inr (case map_of ps k of None \<Rightarrow> JUndefined | Some v \<Rightarrow> v)"
| "get_prop x k = Inr JUndefined"

text \<open>Writing a property of an object: an existing key keeps its place, a new one goes last.\<close>

fun set_entry :: "(string \<times> jsv) list \<Rightarrow> string \<Rightarrow> jsv \<Rightarrow> (string \<times> jsv) list" where
  "set_entry [] k v = [(k, v)]"
| "set_entry ((k', v') # ps) k v =
     (if k' = k then (k, v) # ps else (k', v') # set_entry ps k v)"

fun set_prop :: "jsv \<Rightarrow> string \<Rightarrow> jsv \<Rightarrow> jsv" where
  "set_prop (JObj ps) k v = JObj (set_entry ps k v)"
| "set_prop x k v = x"

definition bindE :: "js_error + 'a \<Rightarrow> ('a \<Rightarrow> js_error + 'b) \<Rightarrow> js_error + 'b" where
  "bindE x f = (case x of Inl e \<Rightarrow> Inl e | Inr v \<Rightarrow> f v)"

section \<open>The options bag and the configuration table\<close>

text \<open>
  The four fields the constructor resolves, and the options bag that carries them together
  with \<open>apiVersion\<close> and the credentials handed on to the base strategy. A field the
  caller did not set reads as \<open>undefined\<close>.
\<close>

record endpoint_options =
  authorizationURL :: jsv
  tokenURL :: jsv
  scopeSeparator :: jsv
  customHeaders :: jsv

record options = endpoint_options +
  apiVersion :: jsv
  clientID :: jsv
  clientSecret :: jsv
  callbackURL :: jsv

definition empty_options :: options where
  "empty_options =
     \<lparr>authorizationURL = JUndefined, tokenURL = JUndefined, scopeSeparator = JUndefined,
      customHeaders = JUndefined, apiVersion = JUndefined, clientID = JUndefined,
      clientSecret = JUndefined, callbackURL = JUndefined\<rparr>"

definition supportedApiVersions :: "string list" where
  "supportedApiVersions = [''1'', ''2'']"

text \<open>The table \<open>defaultOptionsByApiVersion\<close>, read by property key.\<close>

definition defaultOptionsByApiVersion :: "string \<Rightarrow> endpoint_options option" where
  "defaultOptionsByApiVersion k =
     (if k = ''1'' then
        Some \<lparr>authorizationURL = JStr ''https://www.dropbox.com/1/oauth2/authorize'',
              tokenURL = JStr ''https://api.dropbox.com/1/oauth2/token'',
              scopeSeparator = JStr '','',
              customHeaders = JObj []\<rparr>
      else if k = ''2'' then
        Some \<lparr>authorizationURL = JStr ''https://www.dropbox.com/oauth2/authorize'',
              tokenURL = JStr ''https://api.dropbox.com/oauth2/token'',
              scopeSeparator = JStr '','',
              customHeaders = JObj [(''Content-Type'', JStr ''application/json'')]\<rparr>
      else None)"

text \<open>
  Objects live in a store, addressed by position, so that the caller and the constructor
  can hold the same options object.
\<close>

type_synonym ref = nat
type_synonym heap = "options list"

section \<open>The delegated OAuth2 client and the strategy object\<close>

text \<open>
  What the transport passes to the callback of a request: the error (falsy on success) and
  the response body.
\<close>

record response =
  err :: jsv
  body :: string

text \<open>
  The client \<open>this._oauth2\<close> built by the base strategy: its token-authenticated GET,
  its low-level request primitive (method, URL, headers, body, token) and its
  authorization-header builder. Each request completes by passing one response to the
  callback it was given.
\<close>

record oauth2 =
  oauth2_get :: "string \<Rightarrow> string \<Rightarrow> response"
  oauth2_request :: "string \<Rightarrow> string \<Rightarrow> (string \<times> jsv) list \<Rightarrow> string \<Rightarrow> string \<Rightarrow> response"
  buildAuthHeader :: "string \<Rightarrow> jsv"

record strategy =
  this_apiVersion :: jsv
  this_oauth2 :: oauth2
  this_name :: string

section \<open>The constructor\<close>

text \<open>The message of the error thrown for an unsupported version.\<close>

definition unsupported_message :: string where
  "unsupported_message = ''Unsupported Dropbox API version. Supported versions are \"1\" and \"2\".''"

text \<open>
  \<open>options.f = options.f || defaultOptionsByApiVersion[this._apiVersion].f\<close>: the table
  is read only when the field is falsy, under the version coerced to a string as key; a
  coercion that throws and a missing table entry both make the assignment throw.
\<close>

definition resolve :: "jsv \<Rightarrow> (endpoint_options \<Rightarrow> jsv) \<Rightarrow> jsv \<Rightarrow> js_error + jsv" where
  "resolve v field cur =
     (if truthy cur then Inr cur
      else case ToString v of
             Inl e \<Rightarrow> Inl e
           | Inr k \<Rightarrow>
              (case defaultOptionsByApiVersion k of
                 None \<Rightarrow> Inl TypeError
               | Some d \<Rightarrow> Inr (field d)))"

text \<open>
  The guard of the constructor, as what it throws: nothing when \<open>apiVersion\<close> is
  \<open>undefined\<close> or \<open>null\<close>; otherwise what the call of \<open>toString\<close> throws, or
  the error for a string that is not a supported version.
\<close>

definition version_guard :: "jsv \<Rightarrow> js_error option" where
  "version_guard v =
     (if v \<noteq> JUndefined \<and> v \<noteq> JNull then
        (case toString v of
           Inl e \<Rightarrow> Some e
         | Inr s \<Rightarrow>
            if s \<notin> set supportedApiVersions then Some (Error unsupported_message) else None)
      else None)"

text \<open>
  \<open>Strategy(options, verify)\<close>. The argument is a reference to the caller's options
  object, or nothing; the base constructor \<open>OAuth2Strategy\<close> is the external one, which
  either throws or builds the client. The result is the thrown error or the new strategy,
  and the store as the call leaves it.
\<close>

definition Strategy ::
  "(options \<Rightarrow> 'v \<Rightarrow> js_error + oauth2) \<Rightarrow> heap \<Rightarrow> ref option \<Rightarrow> 'v \<Rightarrow> (js_error + strategy) \<times> heap" where
  "Strategy OAuth2Strategy h arg verify =
     (let h0 = (case arg of None \<Rightarrow> h @ [empty_options] | Some a \<Rightarrow> h);
          r = (case arg of None \<Rightarrow> length h | Some a \<Rightarrow> a);
          v = apiVersion (h0 ! r)
      in case version_guard v of
           Some e \<Rightarrow> (Inl e, h0)
         | None \<Rightarrow>
           let av = (if truthy v then v else JStr ''1'') in
           (case resolve av authorizationURL (authorizationURL (h0 ! r)) of
              Inl e \<Rightarrow> (Inl e, h0)
            | Inr a \<Rightarrow>
               (let h1 = list_update h0 r ((h0 ! r)\<lparr>authorizationURL := a\<rparr>) in
                (case resolve av tokenURL (tokenURL (h1 ! r)) of
                   Inl e \<Rightarrow> (Inl e, h1)
                 | Inr t \<Rightarrow>
                    (let h2 = list_update h1 r ((h1 ! r)\<lparr>tokenURL := t\<rparr>) in
                     (case resolve av scopeSeparator (scopeSeparator (h2 ! r)) of
                        Inl e \<Rightarrow> (Inl e, h2)
                      | Inr s \<Rightarrow>
                         (let h3 = list_update h2 r ((h2 ! r)\<lparr>scopeSeparator := s\<rparr>) in
                          (case resolve av customHeaders (customHeaders (h3 ! r)) of
                             Inl e \<Rightarrow> (Inl e, h3)
                           | Inr c \<Rightarrow>
                              (let h4 = list_update h3 r ((h3 ! r)\<lparr>customHeaders := c\<rparr>) in
                               (case OAuth2Strategy (h4 ! r) verify of
                                  Inl e \<Rightarrow> (Inl e, h4)
                                | Inr client \<Rightarrow>
                                   (Inr \<lparr>this_apiVersion = av, this_oauth2 = client,
                                         this_name = ''dropbox-oauth2''\<rparr>, h4)))))))))))"

section \<open>A reader for JSON texts\<close>

text \<open>
  \<open>JSON.parse\<close> is the language's own; the profile fetcher below takes it as a
  parameter. For running the fetcher on a concrete body, \<open>read_json\<close> reads the texts
  made of objects, arrays, strings without escape sequences, integer literals below
  \<open>2^53\<close> in magnitude, \<open>true\<close>, \<open>false\<close> and \<open>null\<close>, with white space
  between tokens, and gives
  \<open>None\<close> on every other text. A repeated key keeps its first place and its last value.
  The fuel bounds the nesting; the length of the text is always enough, since every
  recursive call comes after a character has been read.
\<close>

definition is_ws :: "char \<Rightarrow> bool" where
  "is_ws c = (c = CHR '' '' \<or> c = CHR 0x09 \<or> c = CHR 0x0A \<or> c = CHR 0x0D)"

definition skip_ws :: "string \<Rightarrow> string" where
  "skip_ws s = dropWhile is_ws s"

definition is_digit :: "char \<Rightarrow> bool" where
  "is_digit c = (48 \<le> (of_char c :: nat) \<and> (of_char c :: nat) \<le> 57)"

text \<open>The characters of a string literal, after its opening quote, up to the closing one.\<close>

fun parse_chars :: "string \<Rightarrow> (string \<times> string) option" where
  "parse_chars [] = None"
| "parse_chars (c # cs) =
     (if c = CHR 0x22 then Some ([], cs)
      else if c = CHR 0x5C \<or> (of_char c :: nat) < 32 then None
      else (case parse_chars cs of None \<Rightarrow> None | Some (s, r) \<Rightarrow> Some (c # s, r)))"

definition parse_number :: "string \<Rightarrow> (jsv \<times> string) option" where
  "parse_number s =
     (let neg = (s \<noteq> [] \<and> hd s = CHR ''-'');
          s1 = (if neg then tl s else s);
          ds = takeWhile is_digit s1;
          r = dropWhile is_digit s1;
          n = foldl (\<lambda>a c. 10 * a + int (of_char c - (48::nat))) 0 ds
      in if ds = [] \<or> (1 < length ds \<and> hd ds = CHR ''0'')
            \<or> (r \<noteq> [] \<and> (hd r = CHR ''.'' \<or> hd r = CHR ''e'' \<or> hd r = CHR ''E''))
         then None
         else if 2 ^ 53 \<le> n then None
         else Some (JNum (word_of_int (if neg then - n else n)), r))"

fun parse_value :: "nat \<Rightarrow> string \<Rightarrow> (jsv \<times> string) option"
  and parse_elements :: "nat \<Rightarrow> jsv list \<Rightarrow> string \<Rightarrow> (jsv \<times> string) option"
  and parse_members :: "nat \<Rightarrow> (string \<times> jsv) list \<Rightarrow> string \<Rightarrow> (jsv \<times> string) option" where
  "parse_value 0 s = None"
| "parse_value (Suc n) s =
     (case skip_ws s of
        [] \<Rightarrow> None
      | c # r \<Rightarrow>
         if c = CHR ''{'' then
           (case skip_ws r of
              [] \<Rightarrow> None
            | d # r' \<Rightarrow> if d = CHR ''}'' then Some (JObj [], r') else parse_members n [] (d # r'))
         else if c = CHR ''['' then
           (case skip_ws r of
              [] \<Rightarrow> None
            | d # r' \<Rightarrow> if d = CHR '']'' then Some (JArr [], r') else parse_elements n [] (d # r'))
         else if c = CHR 0x22 then
           (case parse_chars r of None \<Rightarrow> None | Some (str, r') \<Rightarrow> Some (JStr str, r'))
         else if take 4 (c # r) = ''true'' then Some (JBool True, drop 4 (c # r))
         else if take 5 (c # r) = ''false'' then Some (JBool False, drop 5 (c # r))
         else if take 4 (c # r) = ''null'' then Some (JNull, drop 4 (c # r))
         else parse_number (c # r))"
| "parse_elements 0 acc s = None"
| "parse_elements (Suc n) acc s =
     (case parse_value n s of
        None \<Rightarrow> None
      | Some (v, r) \<Rightarrow>
         (case skip_ws r of
            [] \<Rightarrow> None
          | c # r' \<Rightarrow>
             if c = CHR '','' then parse_elements n (acc @ [v]) r'
             else if c = CHR '']'' then Some (JArr (acc @ [v]), r')
             else None))"
| "parse_members 0 acc s = None"
| "parse_members (Suc n) acc s =
     (case skip_ws s of
        [] \<Rightarrow> None
      | q # r \<Rightarrow>
         if q \<noteq> CHR 0x22 then None
         else
           (case parse_chars r of
              None \<Rightarrow> None
            | Some (k, r1) \<Rightarrow>
               (case skip_ws r1 of
                  [] \<Rightarrow> None
                | c # r2 \<Rightarrow>
                   if c \<noteq> CHR '':'' then None
                   else
                     (case parse_value n r2 of
                        None \<Rightarrow> None
                      | Some (v, r3) \<Rightarrow>
                         (case skip_ws r3 of
                            [] \<Rightarrow> None
                          | d # r4 \<Rightarrow>
                             if d = CHR '','' then parse_members n (set_entry acc k v) r4
                             else if d = CHR ''}'' then Some (JObj (set_entry acc k v), r4)
                             else None)))))"

definition read_json :: "string \<Rightarrow> jsv option" where
  "read_json s =
     (case parse_value (Suc (length s)) s of
        None \<Rightarrow> None
      | Some (v, r) \<Rightarrow> if skip_ws r = [] then Some v else None)"

section \<open>Fetching the profile\<close>

text \<open>
  What a call of \<open>userProfile\<close> does to the outside, in order: the requests it hands to
  the client, the bodies it hands to \<open>JSON.parse\<close>, and its calls of the completion
  callback, \<open>done(e)\<close> as \<open>Done (Some e) None\<close> and \<open>done(null, profile)\<close> as
  \<open>Done None (Some profile)\<close>. The outcome of a call is this list together with the
  exception that escapes it, if any.
\<close>

datatype event =
    OAuth2Get string string
  | OAuth2Request string string "(string \<times> jsv) list" string string
  | JSONParse string
  | Done "js_error option" "jsv option"

type_synonym outcome = "event list \<times> js_error option"

text \<open>
  The completion callback is the caller's function: given its two arguments it returns
  normally (\<open>None\<close>) or throws.
\<close>

type_synonym done_fn = "js_error option \<Rightarrow> jsv option \<Rightarrow> js_error option"

text \<open>
  \<open>_retrieveUserProfile(accessToken, callback)\<close>. The comparisons are strict, so only
  the strings \<open>'1'\<close> and \<open>'2'\<close> select a request; there is no third branch.
\<close>

definition retrieveUserProfile :: "strategy \<Rightarrow> string \<Rightarrow> (response \<Rightarrow> outcome) \<Rightarrow> outcome" where
  "retrieveUserProfile this accessToken callback =
     (if this_apiVersion this = JStr ''1'' then
        (let url = ''https://api.dropbox.com/1/account/info'';
             out = callback (oauth2_get (this_oauth2 this) url accessToken)
         in (OAuth2Get url accessToken # fst out, snd out))
      else if this_apiVersion this = JStr ''2'' then
        (let url = ''https://api.dropboxapi.com/2/users/get_current_account'';
             headers = [(''Authorization'', buildAuthHeader (this_oauth2 this) accessToken)];
             out = callback (oauth2_request (this_oauth2 this) ''POST'' url headers ''null'' accessToken)
         in (OAuth2Request ''POST'' url headers ''null'' accessToken # fst out, snd out))
      else ([], None))"

text \<open>
  The field mapping inside the \<open>try\<close> block, from the parsed payload to the profile
  object before \<open>_raw\<close> and \<open>_json\<close> are attached. Every property read can throw.
\<close>

definition profile_fields :: "jsv \<Rightarrow> jsv \<Rightarrow> js_error + jsv" where
  "profile_fields v json =
     (let profile = JObj [(''provider'', JStr ''dropbox'')] in
      if v = JStr ''1'' then
        bindE (get_prop json ''uid'') (\<lambda>uid.
        bindE (get_prop json ''display_name'') (\<lambda>display_name.
        bindE (get_prop json ''name_details'') (\<lambda>details.
        bindE (get_prop details ''surname'') (\<lambda>surname.
        bindE (get_prop json ''name_details'') (\<lambda>details'.
        bindE (get_prop details' ''given_name'') (\<lambda>given_name.
        bindE (get_prop json ''email'') (\<lambda>email.
        Inr (set_prop (set_prop (set_prop (set_prop profile
               ''id'' uid)
               ''displayName'' display_name)
               ''name'' (JObj [(''familyName'', surname), (''givenName'', given_name),
                               (''middleName'', JStr [])]))
               ''emails'' (JArr [JObj [(''value'', email)]])))))))))
      else if v = JStr ''2'' then
        bindE (get_prop json ''account_id'') (\<lambda>account_id.
        bindE (get_prop json ''name'') (\<lambda>name1.
        bindE (get_prop name1 ''display_name'') (\<lambda>display_name.
        bindE (get_prop json ''name'') (\<lambda>name2.
        bindE (get_prop name2 ''surname'') (\<lambda>surname.
        bindE (get_prop json ''name'') (\<lambda>name3.
        bindE (get_prop name3 ''given_name'') (\<lambda>given_name.
        bindE (get_prop json ''email'') (\<lambda>email.
        Inr (set_prop (set_prop (set_prop (set_prop profile
               ''id'' account_id)
               ''displayName'' display_name)
               ''name'' (JObj [(''familyName'', surname), (''givenName'', given_name),
                               (''middleName'', JStr [])]))
               ''emails'' (JArr [JObj [(''value'', email)]]))))))))))
      else Inr profile)"

text \<open>
  The function that \<open>userProfile\<close> passes to \<open>_retrieveUserProfile\<close>, bound to the
  strategy, with \<open>JSON.parse\<close> as a parameter (\<open>None\<close> where it throws its
  \<open>SyntaxError\<close>). The call \<open>done(null, profile)\<close> is inside the \<open>try\<close> block, so
  what it throws is caught and passed to \<open>done\<close> again; what \<open>done\<close> throws
  elsewhere escapes.
\<close>

definition profile_callback :: "(string \<Rightarrow> jsv option) \<Rightarrow> strategy \<Rightarrow> done_fn \<Rightarrow> response \<Rightarrow> outcome" where
  "profile_callback JSON_parse this done res =
     (if truthy (err res) then
        (let e = InternalOAuthError ''failed to fetch user profile'' (err res)
         in ([Done (Some e) None], done (Some e) None))
      else
        (let tried =
           (case JSON_parse (body res) of
              None \<Rightarrow> ([JSONParse (body res)], Some SyntaxError)
            | Some json \<Rightarrow>
               (case profile_fields (this_apiVersion this) json of
                  Inl e \<Rightarrow> ([JSONParse (body res)], Some e)
                | Inr p \<Rightarrow>
                   (let profile = set_prop (set_prop p ''_raw'' (JStr (body res))) ''_json'' json
                    in ([JSONParse (body res), Done None (Some profile)],
                        done None (Some profile)))))
         in (case snd tried of
               None \<Rightarrow> (fst tried, None)
             | Some e \<Rightarrow> (fst tried @ [Done (Some e) None], done (Some e) None))))"

text \<open>\<open>userProfile(accessToken, done)\<close>.\<close>

definition userProfile :: "(string \<Rightarrow> jsv option) \<Rightarrow> strategy \<Rightarrow> string \<Rightarrow> done_fn \<Rightarrow> outcome" where
  "userProfile JSON_parse this accessToken done =
     retrieveUserProfile this accessToken (profile_callback JSON_parse this done)"

text \<open>
  The expression \<open>new Strategy(options, verify).userProfile(accessToken, done)\<close>: when
  the constructor throws there is no strategy object and nothing after it runs.
\<close>

definition new_Strategy_userProfile ::
  "(options \<Rightarrow> 'v \<Rightarrow> js_error + oauth2) \<Rightarrow> (string \<Rightarrow> jsv option) \<Rightarrow> heap \<Rightarrow> ref option \<Rightarrow> 'v \<Rightarrow>
     string \<Rightarrow> done_fn \<Rightarrow> outcome" where
  "new_Strategy_userProfile OAuth2Strategy JSON_parse h arg verify accessToken done =
     (case fst (Strategy OAuth2Strategy h arg verify) of
        Inl e \<Rightarrow> ([], Some e)
      | Inr this \<Rightarrow> userProfile JSON_parse this accessToken done)"

text \<open>Observations on a list of events.\<close>

fun is_request :: "event \<Rightarrow> bool" where
  "is_request (OAuth2Get url token) = True"
| "is_request (OAuth2Request method url headers content token) = True"
| "is_request e = False"

fun is_Done :: "event \<Rightarrow> bool" where
  "is_Done (Done e p) = True"
| "is_Done e = False"


text \<open>
  The response that the client passes to the callback of the profile request, for a
  strategy whose version selects a request.
\<close>

definition profile_response :: "strategy \<Rightarrow> string \<Rightarrow> response" where
  "profile_response this accessToken =
     (if this_apiVersion this = JStr ''1'' then
        oauth2_get (this_oauth2 this) ''https://api.dropbox.com/1/account/info'' accessToken
      else
        oauth2_request (this_oauth2 this) ''POST''
          ''https://api.dropboxapi.com/2/users/get_current_account''
          [(''Authorization'', buildAuthHeader (this_oauth2 this) accessToken)] ''null'' accessToken)"

text \<open>The values of \<open>apiVersion\<close> that pass the guard of the constructor.\<close>

definition accepted :: "jsv \<Rightarrow> bool" where
  "accepted v = (version_guard v = None)"

text \<open>The version the constructor stores: \<open>options.apiVersion || '1'\<close>.\<close>

definition version_of :: "jsv \<Rightarrow> jsv" where
  "version_of v = (if truthy v then v else JStr ''1'')"

text \<open>
  An options object with each of the four fields kept when truthy and taken from the
  table entry \<open>d\<close> otherwise: what the four assignments of the constructor are to leave.
\<close>

definition resolved :: "endpoint_options \<Rightarrow> options \<Rightarrow> options" where
  "resolved d opts = opts
     \<lparr>authorizationURL :=
        (if truthy (authorizationURL opts) then authorizationURL opts else authorizationURL d),
      tokenURL := (if truthy (tokenURL opts) then tokenURL opts else tokenURL d),
      scopeSeparator :=
        (if truthy (scopeSeparator opts) then scopeSeparator opts else scopeSeparator d),
      customHeaders :=
        (if truthy (customHeaders opts) then customHeaders opts else customHeaders d)\<rparr>"

text \<open>The two response bodies of the examples.\<close>

definition example_body_v1 :: string where
  "example_body_v1 =
     ''{\"uid\":\"42\",\"display_name\":\"A B\",\"name_details\":{\"surname\":\"B\",\"given_name\":\"A\"},\"email\":\"a@b.com\"}''"

definition example_body_v2 :: string where
  "example_body_v2 =
     ''{\"account_id\":\"acc1\",\"name\":{\"display_name\":\"A B\",\"surname\":\"B\",\"given_name\":\"A\"},\"email\":\"a@b.com\"}''"

text \<open>
  Clients for running the examples: one answers every request with the example bodies,
  another fails its GET and answers its POST with a page that is not JSON.
\<close>

definition example_client :: oauth2 where
  "example_client =
     \<lparr>oauth2_get = (\<lambda>url token. \<lparr>err = JNull, body = example_body_v1\<rparr>),
      oauth2_request = (\<lambda>method url headers content token. \<lparr>err = JNull, body = example_body_v2\<rparr>),
      buildAuthHeader = (\<lambda>token. JStr (''Bearer '' @ token))\<rparr>"

definition failing_client :: oauth2 where
  "failing_client =
     \<lparr>oauth2_get = (\<lambda>url token. \<lparr>err = JObj [(''statusCode'', JNum 401)], body = []\<rparr>),
      oauth2_request = (\<lambda>method url headers content token. \<lparr>err = JNull, body = ''<html>''\<rparr>),
      buildAuthHeader = (\<lambda>token. JStr (''Bearer '' @ token))\<rparr>"




section \<open>The constructor: what it accepts and what it leaves behind\<close>

lemma digits_0: "digits_of_nat 0 = ''0''"
  by (simp add: digits_of_nat.simps)

lemma falsy_not_accepted:
  "\<not> truthy v \<Longrightarrow> v \<noteq> JUndefined \<Longrightarrow> v \<noteq> JNull \<Longrightarrow> version_guard v = Some (Error unsupported_message)"
  by (cases v) (auto simp: version_guard_def toString_def supportedApiVersions_def string_of_int_def digits_0)

lemma accepted_key:
  assumes "accepted v"
  shows "ToString (version_of v) = Inr ''1'' \<or> ToString (version_of v) = Inr ''2''"
proof (cases "truthy v")
  case True
  then have "v \<noteq> JUndefined" "v \<noteq> JNull" by auto
  with assms True show ?thesis
    by (auto simp: accepted_def version_guard_def toString_def version_of_def supportedApiVersions_def
        split: sum.splits if_splits)
next
  case False
  then show ?thesis by (simp add: version_of_def)
qed

lemma Strategy_accepted:
  assumes r: "r < length h" and acc: "accepted (apiVersion (h ! r))"
  shows "\<exists>k d. ToString (version_of (apiVersion (h ! r))) = Inr k \<and>
     defaultOptionsByApiVersion k = Some d \<and>
     Strategy OAuth2Strategy h (Some r) verify =
       (case OAuth2Strategy (resolved d (h ! r)) verify of
          Inl e \<Rightarrow> (Inl e, list_update h r (resolved d (h ! r)))
        | Inr client \<Rightarrow>
           (Inr \<lparr>this_apiVersion = version_of (apiVersion (h ! r)), this_oauth2 = client,
                 this_name = ''dropbox-oauth2''\<rparr>, list_update h r (resolved d (h ! r))))"
proof -
  let ?av = "version_of (apiVersion (h ! r))"
  from accepted_key [OF acc] obtain k d where k: "ToString ?av = Inr k"
    and d: "defaultOptionsByApiVersion k = Some d"
    by (auto simp: defaultOptionsByApiVersion_def)
  have res: "\<And>field cur. resolve ?av field cur = Inr (if truthy cur then cur else field d)"
    using k d by (simp add: resolve_def)
  have g: "version_guard (apiVersion (h ! r)) = None"
    using acc by (simp add: accepted_def)
  have upd: "\<And>x y. list_update (list_update h r x) r y = list_update h r y"
    by simp
  have nth: "\<And>x. list_update h r x ! r = x"
    using r by simp
  have "Strategy OAuth2Strategy h (Some r) verify =
       (case OAuth2Strategy (resolved d (h ! r)) verify of
          Inl e \<Rightarrow> (Inl e, list_update h r (resolved d (h ! r)))
        | Inr client \<Rightarrow>
           (Inr \<lparr>this_apiVersion = ?av, this_oauth2 = client,
                 this_name = ''dropbox-oauth2''\<rparr>, list_update h r (resolved d (h ! r))))"
    unfolding Strategy_def Let_def option.case
    apply (simp only: g option.case version_of_def [symmetric] res sum.case)
    apply (simp add: resolved_def nth upd cong: sum.case_cong)
    done
  with k d show ?thesis by blast
qed

lemma Strategy_rejected:
  assumes "version_guard (apiVersion (h ! r)) = Some e"
  shows "Strategy OAuth2Strategy h (Some r) verify = (Inl e, h)"
  using assms by (simp add: Strategy_def Let_def)

lemma Strategy_toString_throws:
  assumes "apiVersion (h ! r) = JObj ps" and "map_of ps ''toString'' = Some x"
  shows "Strategy OAuth2Strategy h (Some r) verify = (Inl TypeError, h)"
  using assms by (simp add: Strategy_rejected version_guard_def toString_def)

lemma null_version_is_default:
  assumes "r < length h" and "apiVersion (h ! r) = JNull"
  shows "\<exists>d. defaultOptionsByApiVersion ''1'' = Some d \<and>
           Strategy OAuth2Strategy h (Some r) verify =
       (case OAuth2Strategy (resolved d (h ! r)) verify of
          Inl e \<Rightarrow> (Inl e, list_update h r (resolved d (h ! r)))
        | Inr client \<Rightarrow>
           (Inr \<lparr>this_apiVersion = JStr ''1'', this_oauth2 = client,
                 this_name = ''dropbox-oauth2''\<rparr>, list_update h r (resolved d (h ! r))))"
proof -
  have acc: "accepted (apiVersion (h ! r))"
    using assms(2) by (simp add: accepted_def version_guard_def)
  have v: "version_of (apiVersion (h ! r)) = JStr ''1''"
    using assms(2) by (simp add: version_of_def)
  from Strategy_accepted [OF assms(1) acc, of OAuth2Strategy verify]
  show ?thesis
    unfolding v by simp
qed

lemma default_truthy:
  assumes "defaultOptionsByApiVersion k = Some d"
  shows "truthy (authorizationURL d) \<and> truthy (tokenURL d) \<and> truthy (scopeSeparator d) \<and> truthy (customHeaders d)"
  using assms by (auto simp: defaultOptionsByApiVersion_def split: if_splits)

lemma resolved_changes:
  assumes "truthy (authorizationURL d)" "truthy (tokenURL d)" "truthy (scopeSeparator d)" "truthy (customHeaders d)"
    and "\<not> truthy (authorizationURL opts) \<or> \<not> truthy (tokenURL opts) \<or>
         \<not> truthy (scopeSeparator opts) \<or> \<not> truthy (customHeaders opts)"
  shows "resolved d opts \<noteq> opts"
proof
  assume eq: "resolved d opts = opts"
  have "authorizationURL (resolved d opts) = authorizationURL opts"
       "tokenURL (resolved d opts) = tokenURL opts"
       "scopeSeparator (resolved d opts) = scopeSeparator opts"
       "customHeaders (resolved d opts) = customHeaders opts"
    by (simp_all only: eq)
  with assms show False
    by (auto simp: resolved_def split: if_splits)
qed

section \<open>The profile fetcher, branch by branch\<close>

lemma userProfile_v1:
  "this_apiVersion this = JStr ''1'' \<Longrightarrow>
   userProfile P this tok done =
     (OAuth2Get ''https://api.dropbox.com/1/account/info'' tok
        # fst (profile_callback P this done (profile_response this tok)),
      snd (profile_callback P this done (profile_response this tok)))"
  by (simp add: userProfile_def retrieveUserProfile_def profile_response_def Let_def)

lemma userProfile_v2:
  "this_apiVersion this = JStr ''2'' \<Longrightarrow>
   userProfile P this tok done =
     (OAuth2Request ''POST'' ''https://api.dropboxapi.com/2/users/get_current_account''
        [(''Authorization'', buildAuthHeader (this_oauth2 this) tok)] ''null'' tok
        # fst (profile_callback P this done (profile_response this tok)),
      snd (profile_callback P this done (profile_response this tok)))"
  by (simp add: userProfile_def retrieveUserProfile_def profile_response_def Let_def)

lemma userProfile_other:
  "this_apiVersion this \<noteq> JStr ''1'' \<Longrightarrow> this_apiVersion this \<noteq> JStr ''2'' \<Longrightarrow>
   userProfile P this tok done = ([], None)"
  by (simp add: userProfile_def retrieveUserProfile_def)

lemma callback_error:
  "truthy (err res) \<Longrightarrow>
   profile_callback P this done res =
     ([Done (Some (InternalOAuthError ''failed to fetch user profile'' (err res))) None],
      done (Some (InternalOAuthError ''failed to fetch user profile'' (err res))) None)"
  by (simp add: profile_callback_def Let_def)

lemma callback_parse_failure:
  "\<not> truthy (err res) \<Longrightarrow> P (body res) = None \<Longrightarrow>
   profile_callback P this done res =
     ([JSONParse (body res), Done (Some SyntaxError) None], done (Some SyntaxError) None)"
  by (simp add: profile_callback_def Let_def)


lemma callback_success:
  "\<not> truthy (err res) \<Longrightarrow> P (body res) = Some json \<Longrightarrow>
   profile_fields (this_apiVersion this) json = Inr p \<Longrightarrow>
   profile_callback P this done res =
     (let profile = set_prop (set_prop p ''_raw'' (JStr (body res))) ''_json'' json in
      (case done None (Some profile) of
         None \<Rightarrow> ([JSONParse (body res), Done None (Some profile)], None)
       | Some x \<Rightarrow> ([JSONParse (body res), Done None (Some profile), Done (Some x) None],
                    done (Some x) None)))"
  by (simp add: profile_callback_def Let_def split: option.splits)

lemma profile_fields_shape:
  assumes "v = JStr ''1'' \<or> v = JStr ''2''" and "profile_fields v json = Inr p"
  shows "\<exists>i dn fam giv email. get_prop json ''email'' = Inr email \<and>
     p = JObj [(''provider'', JStr ''dropbox''), (''id'', i), (''displayName'', dn),
               (''name'', JObj [(''familyName'', fam), (''givenName'', giv), (''middleName'', JStr [])]),
               (''emails'', JArr [JObj [(''value'', email)]])]"
  using assms
  by (auto simp: profile_fields_def bindE_def Let_def split: sum.splits)

lemma callback_no_request: "filter is_request (fst (profile_callback P this done res)) = []"
  by (simp add: profile_callback_def Let_def split: option.splits sum.splits)

lemma read_example_v1:
  "read_json example_body_v1 =
     Some (JObj [(''uid'', JStr ''42''), (''display_name'', JStr ''A B''),
                 (''name_details'', JObj [(''surname'', JStr ''B''), (''given_name'', JStr ''A'')]),
                 (''email'', JStr ''a@b.com'')])"
  by code_simp

lemma read_example_v2:
  "read_json example_body_v2 =
     Some (JObj [(''account_id'', JStr ''acc1''),
                 (''name'', JObj [(''display_name'', JStr ''A B''), (''surname'', JStr ''B''),
                                  (''given_name'', JStr ''A'')]),
                 (''email'', JStr ''a@b.com'')])"
  by code_simp

lemma read_html: "read_json ''<html>'' = None"
  by code_simp

lemma fields_example_v1:
  "profile_fields (JStr ''1'')
     (JObj [(''uid'', JStr ''42''), (''display_name'', JStr ''A B''),
            (''name_details'', JObj [(''surname'', JStr ''B''), (''given_name'', JStr ''A'')]),
            (''email'', JStr ''a@b.com'')]) =
   Inr (JObj [(''provider'', JStr ''dropbox''), (''id'', JStr ''42''), (''displayName'', JStr ''A B''),
              (''name'', JObj [(''familyName'', JStr ''B''), (''givenName'', JStr ''A''),
                               (''middleName'', JStr [])]),
              (''emails'', JArr [JObj [(''value'', JStr ''a@b.com'')]])])"
  by (simp add: profile_fields_def bindE_def)

lemma fields_example_v2:
  "profile_fields (JStr ''2'')
     (JObj [(''account_id'', JStr ''acc1''),
            (''name'', JObj [(''display_name'', JStr ''A B''), (''surname'', JStr ''B''),
                             (''given_name'', JStr ''A'')]),
            (''email'', JStr ''a@b.com'')]) =
   Inr (JObj [(''provider'', JStr ''dropbox''), (''id'', JStr ''acc1''), (''displayName'', JStr ''A B''),
              (''name'', JObj [(''familyName'', JStr ''B''), (''givenName'', JStr ''A''),
                               (''middleName'', JStr [])]),
              (''emails'', JArr [JObj [(''value'', JStr ''a@b.com'')]])])"
  by (simp add: profile_fields_def bindE_def)

lemma userProfile_after_request:
  assumes "this_apiVersion this = JStr ''1'' \<or> this_apiVersion this = JStr ''2''"
  shows "filter (\<lambda>e. \<not> is_request e) (fst (userProfile P this tok done)) =
           filter (\<lambda>e. \<not> is_request e) (fst (profile_callback P this done (profile_response this tok)))"
  using assms by (auto simp: userProfile_v1 userProfile_v2)

lemma callback_delivers:
  assumes "Done None (Some p) \<in> set (fst (profile_callback P this done res))"
  shows "\<exists>json q. \<not> truthy (err res) \<and> P (body res) = Some json \<and>
           profile_fields (this_apiVersion this) json = Inr q \<and>
           p = set_prop (set_prop q ''_raw'' (JStr (body res))) ''_json'' json"
  using assms
  by (auto simp: profile_callback_def Let_def split: if_splits option.splits sum.splits)

lemma example_v1_run:
  "userProfile read_json \<lparr>this_apiVersion = JStr ''1'', this_oauth2 = example_client, this_name = ''dropbox-oauth2''\<rparr>
        ''token'' (\<lambda>e p. None) =
       ([OAuth2Get ''https://api.dropbox.com/1/account/info'' ''token'',
         JSONParse example_body_v1,
         Done None (Some (JObj [(''provider'', JStr ''dropbox''), (''id'', JStr ''42''), (''displayName'', JStr ''A B''),
                 (''name'', JObj [(''familyName'', JStr ''B''), (''givenName'', JStr ''A''),
                                  (''middleName'', JStr [])]),
                 (''emails'', JArr [JObj [(''value'', JStr ''a@b.com'')]]),
                 (''_raw'', JStr example_body_v1),
                 (''_json'',
                    JObj [(''uid'', JStr ''42''), (''display_name'', JStr ''A B''),
                          (''name_details'', JObj [(''surname'', JStr ''B''), (''given_name'', JStr ''A'')]),
                          (''email'', JStr ''a@b.com'')])]))], None)"
proof -
  let ?s = "\<lparr>this_apiVersion = JStr ''1'', this_oauth2 = example_client, this_name = ''dropbox-oauth2''\<rparr>"
  have r: "profile_response ?s ''token'' = \<lparr>err = JNull, body = example_body_v1\<rparr>"
    by (simp add: profile_response_def example_client_def)
  have v: "this_apiVersion ?s = JStr ''1''" by simp
  have e: "\<not> truthy (err \<lparr>err = JNull, body = example_body_v1\<rparr>)" by simp
  have p: "read_json (body \<lparr>err = JNull, body = example_body_v1\<rparr>) = Some (JObj [(''uid'', JStr ''42''), (''display_name'', JStr ''A B''),
                 (''name_details'', JObj [(''surname'', JStr ''B''), (''given_name'', JStr ''A'')]),
                 (''email'', JStr ''a@b.com'')])"
    using read_example_v1 by simp
  have f: "profile_fields (this_apiVersion ?s) (JObj [(''uid'', JStr ''42''), (''display_name'', JStr ''A B''),
                 (''name_details'', JObj [(''surname'', JStr ''B''), (''given_name'', JStr ''A'')]),
                 (''email'', JStr ''a@b.com'')]) = Inr (JObj [(''provider'', JStr ''dropbox''), (''id'', JStr ''42''), (''displayName'', JStr ''A B''),
              (''name'', JObj [(''familyName'', JStr ''B''), (''givenName'', JStr ''A''),
                               (''middleName'', JStr [])]),
              (''emails'', JArr [JObj [(''value'', JStr ''a@b.com'')]])])"
    using fields_example_v1 by simp
  show ?thesis
    unfolding userProfile_v1 [OF v] r callback_success [where P = read_json, OF e p f]
    by (simp add: Let_def)
qed



text \<open>
  How often the callback is called: once, with an error or a profile and never both, when
  the version is one of the two strings and the callback returns; once more when the
  callback throws on the profile.
\<close>

lemma callback_once_when_done_returns:
  assumes "\<forall>e p. done e p = None"
  shows "\<exists>e p. filter is_Done (fst (profile_callback P this done res)) = [Done e p] \<and>
           (e = None) \<noteq> (p = None) \<and> snd (profile_callback P this done res) = None"
  using assms
  by (simp add: profile_callback_def Let_def split: option.splits sum.splits)

lemma done_called_once_for_string_versions:
  assumes "this_apiVersion this = JStr ''1'' \<or> this_apiVersion this = JStr ''2''"
    and "\<forall>e p. done e p = None"
  shows "\<exists>e p. filter is_Done (fst (userProfile P this tok done)) = [Done e p] \<and>
           (e = None) \<noteq> (p = None)"
  using assms(1) callback_once_when_done_returns [OF assms(2), of P this "profile_response this tok"]
  by (auto simp: userProfile_v1 userProfile_v2)

lemma done_called_again_when_it_throws:
  "filter is_Done
     (fst (userProfile read_json
             \<lparr>this_apiVersion = JStr ''1'', this_oauth2 = example_client, this_name = ''dropbox-oauth2''\<rparr>
             ''token'' (\<lambda>e p. if e = None then Some (Thrown (JStr ''boom'')) else None))) =
   [Done None (Some (JObj [(''provider'', JStr ''dropbox''), (''id'', JStr ''42''), (''displayName'', JStr ''A B''),
                 (''name'', JObj [(''familyName'', JStr ''B''), (''givenName'', JStr ''A''),
                                  (''middleName'', JStr [])]),
                 (''emails'', JArr [JObj [(''value'', JStr ''a@b.com'')]]),
                 (''_raw'', JStr example_body_v1),
                 (''_json'',
                    JObj [(''uid'', JStr ''42''), (''display_name'', JStr ''A B''),
                          (''name_details'', JObj [(''surname'', JStr ''B''), (''given_name'', JStr ''A'')]),
                          (''email'', JStr ''a@b.com'')])])),
    Done (Some (Thrown (JStr ''boom''))) None]"
proof -
  let ?s = "\<lparr>this_apiVersion = JStr ''1'', this_oauth2 = example_client, this_name = ''dropbox-oauth2''\<rparr>"
  have r: "profile_response ?s ''token'' = \<lparr>err = JNull, body = example_body_v1\<rparr>"
    by (simp add: profile_response_def example_client_def)
  have v: "this_apiVersion ?s = JStr ''1''" by simp
  have e: "\<not> truthy (err \<lparr>err = JNull, body = example_body_v1\<rparr>)" by simp
  have p: "read_json (body \<lparr>err = JNull, body = example_body_v1\<rparr>) = Some (JObj [(''uid'', JStr ''42''), (''display_name'', JStr ''A B''),
                 (''name_details'', JObj [(''surname'', JStr ''B''), (''given_name'', JStr ''A'')]),
                 (''email'', JStr ''a@b.com'')])"
    using read_example_v1 by simp
  have f: "profile_fields (this_apiVersion ?s) (JObj [(''uid'', JStr ''42''), (''display_name'', JStr ''A B''),
                 (''name_details'', JObj [(''surname'', JStr ''B''), (''given_name'', JStr ''A'')]),
                 (''email'', JStr ''a@b.com'')]) = Inr (JObj [(''provider'', JStr ''dropbox''), (''id'', JStr ''42''), (''displayName'', JStr ''A B''),
              (''name'', JObj [(''familyName'', JStr ''B''), (''givenName'', JStr ''A''),
                               (''middleName'', JStr [])]),
              (''emails'', JArr [JObj [(''value'', JStr ''a@b.com'')]])])"
    using fields_example_v1 by simp
  show ?thesis
    unfolding userProfile_v1 [OF v] r callback_success [where P = read_json, OF e p f]
    by (simp add: Let_def)
qed





section \<open>The claims\<close>

text \<open>
  C1. The claim: for every access token and every value of \<open>apiVersion\<close> that the
  constructor accepts, \<open>userProfile\<close> invokes its completion callback exactly once.
  The constructor compares the string form of \<open>apiVersion\<close> and so accepts the number
  \<open>1\<close>, but it stores the number itself, and \<open>_retrieveUserProfile\<close> compares
  strictly with the strings \<open>'1'\<close> and \<open>'2'\<close>: on the strategy built from
  \<open>{apiVersion: 1}\<close> the profile fetcher issues no request, never invokes the callback
  and throws nothing.
\<close>

theorem C1_numeric_version_never_calls_back:
  "fst (Strategy (\<lambda>opts v. Inr client) [empty_options\<lparr>apiVersion := JNum 1\<rparr>] (Some 0) verify) =
     Inr \<lparr>this_apiVersion = JNum 1, this_oauth2 = client, this_name = ''dropbox-oauth2''\<rparr>
   \<and> new_Strategy_userProfile (\<lambda>opts v. Inr client) JSON_parse
        [empty_options\<lparr>apiVersion := JNum 1\<rparr>] (Some 0) verify accessToken done = ([], None)"
proof -
  have acc: "accepted (apiVersion ([empty_options\<lparr>apiVersion := JNum 1\<rparr>] ! 0))"
    by (simp add: accepted_def version_guard_def toString_def supportedApiVersions_def
        string_of_int_def digits_of_nat.simps)
  have fst: "fst (Strategy (\<lambda>opts v. Inr client) [empty_options\<lparr>apiVersion := JNum 1\<rparr>] (Some 0) verify) =
     Inr \<lparr>this_apiVersion = JNum 1, this_oauth2 = client, this_name = ''dropbox-oauth2''\<rparr>"
    using Strategy_accepted [OF _ acc, of "\<lambda>opts v. Inr client" verify]
    by (auto simp: version_of_def)
  show ?thesis
    by (simp add: fst new_Strategy_userProfile_def userProfile_other)
qed

text \<open>
  C2. The claim covers every supplied \<open>apiVersion\<close> whose string form is neither
  \<open>1\<close> nor \<open>2\<close>, the null-ish ones included. The constructor tests
  \<open>apiVersion != null\<close> first, so \<open>null\<close> counts as unset: it builds a strategy of
  version \<open>'1'\<close>, which does issue its request. What holds is this: whenever
  \<open>apiVersion\<close> is neither \<open>undefined\<close> nor \<open>null\<close> and its \<open>toString()\<close>
  returns a string other than \<open>1\<close> and \<open>2\<close>, the constructor throws its configuration
  error, leaves the store as it was and calls nothing; and constructing and then fetching
  a profile issues no request: there are no events at all. This covers the strings that
  are not numerals and the falsy values \<open>0\<close>, \<open>''\<close> and \<open>false\<close>, which are not
  replaced by the default.
\<close>

theorem C2_unsupported_version_rejected:
  assumes "apiVersion (h ! r) \<noteq> JUndefined" and "apiVersion (h ! r) \<noteq> JNull"
    and "toString (apiVersion (h ! r)) = Inr s" and "s \<noteq> ''1''" and "s \<noteq> ''2''"
  shows "Strategy OAuth2Strategy h (Some r) verify = (Inl (Error unsupported_message), h)
         \<and> new_Strategy_userProfile OAuth2Strategy JSON_parse h (Some r) verify accessToken done =
           ([], Some (Error unsupported_message))"
proof -
  have g: "version_guard (apiVersion (h ! r)) = Some (Error unsupported_message)"
    using assms by (simp add: version_guard_def supportedApiVersions_def)
  show ?thesis
    by (simp add: Strategy_rejected [OF g] new_Strategy_userProfile_def)
qed

theorem C2_unsupported_version_rejected_witness:
  "apiVersion ([empty_options\<lparr>apiVersion := JStr ''v3''\<rparr>, empty_options\<lparr>apiVersion := JNum 0\<rparr>] ! 1) \<noteq> JUndefined
   \<and> apiVersion ([empty_options\<lparr>apiVersion := JStr ''v3''\<rparr>, empty_options\<lparr>apiVersion := JNum 0\<rparr>] ! 1) \<noteq> JNull
   \<and> toString (apiVersion ([empty_options\<lparr>apiVersion := JStr ''v3''\<rparr>, empty_options\<lparr>apiVersion := JNum 0\<rparr>] ! 1)) = Inr ''0''
   \<and> toString (apiVersion ([empty_options\<lparr>apiVersion := JStr ''v3''\<rparr>, empty_options\<lparr>apiVersion := JNum 0\<rparr>] ! 0)) = Inr ''v3''
   \<and> Strategy (\<lambda>opts (v::unit). Inr example_client)
        [empty_options\<lparr>apiVersion := JStr ''v3''\<rparr>, empty_options\<lparr>apiVersion := JNum 0\<rparr>] (Some 1) () =
       (Inl (Error unsupported_message),
        [empty_options\<lparr>apiVersion := JStr ''v3''\<rparr>, empty_options\<lparr>apiVersion := JNum 0\<rparr>])
   \<and> Strategy (\<lambda>opts (v::unit). Inr example_client)
        [empty_options\<lparr>apiVersion := JStr ''v3''\<rparr>, empty_options\<lparr>apiVersion := JNum 0\<rparr>] (Some 0) () =
       (Inl (Error unsupported_message),
        [empty_options\<lparr>apiVersion := JStr ''v3''\<rparr>, empty_options\<lparr>apiVersion := JNum 0\<rparr>])
   \<and> new_Strategy_userProfile (\<lambda>opts (v::unit). Inr example_client) read_json
        [empty_options\<lparr>apiVersion := JStr ''v3''\<rparr>, empty_options\<lparr>apiVersion := JNum 0\<rparr>] (Some 1) ()
        ''token'' (\<lambda>e p. None) =
       ([], Some (Error unsupported_message))"
proof -
  let ?h = "[empty_options\<lparr>apiVersion := JStr ''v3''\<rparr>, empty_options\<lparr>apiVersion := JNum 0\<rparr>]"
  have s: "toString (apiVersion (?h ! 1)) = Inr ''0''"
    by (simp add: toString_def string_of_int_def digits_of_nat.simps)
  have t: "toString (apiVersion (?h ! 0)) = Inr ''v3''"
    by (simp add: toString_def)
  have n1: "apiVersion (?h ! 1) \<noteq> JUndefined" "apiVersion (?h ! 1) \<noteq> JNull" by simp_all
  have n0: "apiVersion (?h ! 0) \<noteq> JUndefined" "apiVersion (?h ! 0) \<noteq> JNull" by simp_all
  show ?thesis
    using s t n1
      C2_unsupported_version_rejected [where OAuth2Strategy = "\<lambda>opts (v::unit). Inr example_client"
        and verify = "()" and JSON_parse = read_json and accessToken = "''token''"
        and ?done = "\<lambda>e p. None", OF n1 s]
      C2_unsupported_version_rejected [where OAuth2Strategy = "\<lambda>opts (v::unit). Inr example_client"
        and verify = "()" and JSON_parse = read_json and accessToken = "''token''"
        and ?done = "\<lambda>e p. None", OF n0 t]
    by simp
qed

theorem C2_null_version_counterexample:
  "apiVersion ([empty_options\<lparr>apiVersion := JNull\<rparr>] ! 0) = JNull
   \<and> ToString JNull = Inr ''null''
   \<and> fst (Strategy (\<lambda>opts (v::unit). Inr example_client) [empty_options\<lparr>apiVersion := JNull\<rparr>] (Some 0) ()) =
       Inr \<lparr>this_apiVersion = JStr ''1'', this_oauth2 = example_client, this_name = ''dropbox-oauth2''\<rparr>
   \<and> filter is_request
        (fst (new_Strategy_userProfile (\<lambda>opts (v::unit). Inr example_client) read_json
                [empty_options\<lparr>apiVersion := JNull\<rparr>] (Some 0) () ''token'' (\<lambda>e p. None))) =
       [OAuth2Get ''https://api.dropbox.com/1/account/info'' ''token'']"
proof -
  let ?h = "[empty_options\<lparr>apiVersion := JNull\<rparr>]"
  have l: "0 < length ?h" by simp
  have a: "apiVersion (?h ! 0) = JNull" by simp
  from null_version_is_default [OF l a, of "\<lambda>opts (v::unit). Inr example_client" "()"]
  have f: "fst (Strategy (\<lambda>opts (v::unit). Inr example_client) ?h (Some 0) ()) =
       Inr \<lparr>this_apiVersion = JStr ''1'', this_oauth2 = example_client, this_name = ''dropbox-oauth2''\<rparr>"
    by auto
  show ?thesis
    by (simp add: f new_Strategy_userProfile_def example_v1_run)
qed

text \<open>
  C3. For a strategy of version \<open>'1'\<close> whose GET succeeds with the example body,
  \<open>userProfile\<close> requests the account info, parses the body and calls
  \<open>done(null, profile)\<close> with exactly the profile of the claim, the raw body and the
  parsed payload attached. That is all it does when this call returns; when it throws,
  the thrown value is passed to the callback once more.
\<close>

theorem C3_profile_v1_example:
  assumes "this_apiVersion this = JStr ''1''"
    and "oauth2_get (this_oauth2 this) ''https://api.dropbox.com/1/account/info'' accessToken = res"
    and "\<not> truthy (err res)" and "body res = example_body_v1"
  shows "let profile =
           JObj [(''provider'', JStr ''dropbox''), (''id'', JStr ''42''), (''displayName'', JStr ''A B''),
                 (''name'', JObj [(''familyName'', JStr ''B''), (''givenName'', JStr ''A''),
                                  (''middleName'', JStr [])]),
                 (''emails'', JArr [JObj [(''value'', JStr ''a@b.com'')]]),
                 (''_raw'', JStr example_body_v1),
                 (''_json'',
                    JObj [(''uid'', JStr ''42''), (''display_name'', JStr ''A B''),
                          (''name_details'', JObj [(''surname'', JStr ''B''), (''given_name'', JStr ''A'')]),
                          (''email'', JStr ''a@b.com'')])]
         in userProfile read_json this accessToken done =
              (case done None (Some profile) of
                 None \<Rightarrow>
                   ([OAuth2Get ''https://api.dropbox.com/1/account/info'' accessToken,
                     JSONParse example_body_v1, Done None (Some profile)], None)
               | Some x \<Rightarrow>
                   ([OAuth2Get ''https://api.dropbox.com/1/account/info'' accessToken,
                     JSONParse example_body_v1, Done None (Some profile), Done (Some x) None],
                    done (Some x) None))"
proof -
  have r: "profile_response this accessToken = res"
    using assms(1,2) by (simp add: profile_response_def)
  have p: "read_json (body res) = Some (JObj [(''uid'', JStr ''42''), (''display_name'', JStr ''A B''),
                 (''name_details'', JObj [(''surname'', JStr ''B''), (''given_name'', JStr ''A'')]),
                 (''email'', JStr ''a@b.com'')])"
    using assms(4) read_example_v1 by simp
  have f: "profile_fields (this_apiVersion this) (JObj [(''uid'', JStr ''42''), (''display_name'', JStr ''A B''),
                 (''name_details'', JObj [(''surname'', JStr ''B''), (''given_name'', JStr ''A'')]),
                 (''email'', JStr ''a@b.com'')]) = Inr (JObj [(''provider'', JStr ''dropbox''), (''id'', JStr ''42''), (''displayName'', JStr ''A B''),
              (''name'', JObj [(''familyName'', JStr ''B''), (''givenName'', JStr ''A''),
                               (''middleName'', JStr [])]),
              (''emails'', JArr [JObj [(''value'', JStr ''a@b.com'')]])])"
    using assms(1) fields_example_v1 by simp
  show ?thesis
    unfolding userProfile_v1 [OF assms(1)] r callback_success [where P = read_json, OF assms(3) p f]
    by (simp add: assms(4) Let_def split: option.splits)
qed

theorem C3_profile_v1_example_witness:
  "this_apiVersion \<lparr>this_apiVersion = JStr ''1'', this_oauth2 = example_client, this_name = ''dropbox-oauth2''\<rparr> = JStr ''1''
   \<and> oauth2_get example_client ''https://api.dropbox.com/1/account/info'' ''token'' = \<lparr>err = JNull, body = example_body_v1\<rparr>
   \<and> \<not> truthy JNull
   \<and> userProfile read_json \<lparr>this_apiVersion = JStr ''1'', this_oauth2 = example_client, this_name = ''dropbox-oauth2''\<rparr>
        ''token'' (\<lambda>e p. None) =
       ([OAuth2Get ''https://api.dropbox.com/1/account/info'' ''token'',
         JSONParse example_body_v1,
         Done None (Some (JObj [(''provider'', JStr ''dropbox''), (''id'', JStr ''42''), (''displayName'', JStr ''A B''),
                 (''name'', JObj [(''familyName'', JStr ''B''), (''givenName'', JStr ''A''),
                                  (''middleName'', JStr [])]),
                 (''emails'', JArr [JObj [(''value'', JStr ''a@b.com'')]]),
                 (''_raw'', JStr example_body_v1),
                 (''_json'',
                    JObj [(''uid'', JStr ''42''), (''display_name'', JStr ''A B''),
                          (''name_details'', JObj [(''surname'', JStr ''B''), (''given_name'', JStr ''A'')]),
                          (''email'', JStr ''a@b.com'')])]))], None)"
  using C3_profile_v1_example [of "\<lparr>this_apiVersion = JStr ''1'', this_oauth2 = example_client, this_name = ''dropbox-oauth2''\<rparr>"
      "''token''" "\<lparr>err = JNull, body = example_body_v1\<rparr>" "\<lambda>e p. None"]
  by (simp add: example_client_def Let_def)

text \<open>
  C4. For a strategy of version \<open>'2'\<close> whose POST succeeds with the example body,
  \<open>userProfile\<close> calls \<open>done(null, profile)\<close> with a profile whose id is
  \<open>acc1\<close>, whose display name is \<open>A B\<close>, whose name is family name \<open>B\<close>, given
  name \<open>A\<close> and empty middle name, and whose emails are the one entry \<open>a@b.com\<close>.
\<close>

theorem C4_profile_v2_example:
  assumes "this_apiVersion this = JStr ''2''"
    and "oauth2_request (this_oauth2 this) ''POST''
           ''https://api.dropboxapi.com/2/users/get_current_account''
           [(''Authorization'', buildAuthHeader (this_oauth2 this) accessToken)] ''null'' accessToken = res"
    and "\<not> truthy (err res)" and "body res = example_body_v2"
  shows "let profile =
           JObj [(''provider'', JStr ''dropbox''), (''id'', JStr ''acc1''), (''displayName'', JStr ''A B''),
                 (''name'', JObj [(''familyName'', JStr ''B''), (''givenName'', JStr ''A''),
                                  (''middleName'', JStr [])]),
                 (''emails'', JArr [JObj [(''value'', JStr ''a@b.com'')]]),
                 (''_raw'', JStr example_body_v2),
                 (''_json'',
                    JObj [(''account_id'', JStr ''acc1''),
                          (''name'', JObj [(''display_name'', JStr ''A B''), (''surname'', JStr ''B''),
                                           (''given_name'', JStr ''A'')]),
                          (''email'', JStr ''a@b.com'')])];
             request =
               OAuth2Request ''POST'' ''https://api.dropboxapi.com/2/users/get_current_account''
                 [(''Authorization'', buildAuthHeader (this_oauth2 this) accessToken)] ''null'' accessToken
         in userProfile read_json this accessToken done =
              (case done None (Some profile) of
                 None \<Rightarrow> ([request, JSONParse example_body_v2, Done None (Some profile)], None)
               | Some x \<Rightarrow>
                   ([request, JSONParse example_body_v2, Done None (Some profile), Done (Some x) None],
                    done (Some x) None))"
proof -
  have r: "profile_response this accessToken = res"
    using assms(1,2) by (simp add: profile_response_def)
  have p: "read_json (body res) =
     Some (JObj [(''account_id'', JStr ''acc1''),
                 (''name'', JObj [(''display_name'', JStr ''A B''), (''surname'', JStr ''B''),
                                  (''given_name'', JStr ''A'')]),
                 (''email'', JStr ''a@b.com'')])"
    using assms(4) read_example_v2 by simp
  have f: "profile_fields (this_apiVersion this)
     (JObj [(''account_id'', JStr ''acc1''),
            (''name'', JObj [(''display_name'', JStr ''A B''), (''surname'', JStr ''B''),
                             (''given_name'', JStr ''A'')]),
            (''email'', JStr ''a@b.com'')]) =
   Inr (JObj [(''provider'', JStr ''dropbox''), (''id'', JStr ''acc1''), (''displayName'', JStr ''A B''),
              (''name'', JObj [(''familyName'', JStr ''B''), (''givenName'', JStr ''A''),
                               (''middleName'', JStr [])]),
              (''emails'', JArr [JObj [(''value'', JStr ''a@b.com'')]])])"
    using assms(1) fields_example_v2 by simp
  show ?thesis
    unfolding userProfile_v2 [OF assms(1)] r callback_success [where P = read_json, OF assms(3) p f]
    by (simp add: assms(4) Let_def split: option.splits)
qed

theorem C4_profile_v2_example_witness:
  "this_apiVersion \<lparr>this_apiVersion = JStr ''2'', this_oauth2 = example_client, this_name = ''dropbox-oauth2''\<rparr> = JStr ''2''
   \<and> oauth2_request example_client ''POST'' ''https://api.dropboxapi.com/2/users/get_current_account''
         [(''Authorization'', buildAuthHeader example_client ''token'')] ''null'' ''token'' =
       \<lparr>err = JNull, body = example_body_v2\<rparr>
   \<and> \<not> truthy JNull
   \<and> userProfile read_json \<lparr>this_apiVersion = JStr ''2'', this_oauth2 = example_client, this_name = ''dropbox-oauth2''\<rparr>
        ''token'' (\<lambda>e p. None) =
       ([OAuth2Request ''POST'' ''https://api.dropboxapi.com/2/users/get_current_account''
           [(''Authorization'', JStr ''Bearer token'')] ''null'' ''token'',
         JSONParse example_body_v2,
         Done None (Some (JObj [(''provider'', JStr ''dropbox''), (''id'', JStr ''acc1''), (''displayName'', JStr ''A B''),
                 (''name'', JObj [(''familyName'', JStr ''B''), (''givenName'', JStr ''A''),
                                  (''middleName'', JStr [])]),
                 (''emails'', JArr [JObj [(''value'', JStr ''a@b.com'')]]),
                 (''_raw'', JStr example_body_v2),
                 (''_json'',
                    JObj [(''account_id'', JStr ''acc1''),
                          (''name'', JObj [(''display_name'', JStr ''A B''), (''surname'', JStr ''B''),
                                           (''given_name'', JStr ''A'')]),
                          (''email'', JStr ''a@b.com'')])]))], None)"
  using C4_profile_v2_example [of "\<lparr>this_apiVersion = JStr ''2'', this_oauth2 = example_client, this_name = ''dropbox-oauth2''\<rparr>"
      "''token''" "\<lparr>err = JNull, body = example_body_v2\<rparr>" "\<lambda>e p. None"]
  by (simp add: example_client_def Let_def)

text \<open>
  C5. When the caller's options object leaves \<open>apiVersion\<close>, both URLs, the scope
  separator and the header map unset, the constructor resolves them to the entry of
  version 1 of the table: that configuration is what the base constructor receives and
  what the options object holds afterwards, and the strategy stores the version \<open>'1'\<close>.
\<close>

theorem C5_unset_version_gives_v1_defaults:
  assumes "r < length h"
    and "apiVersion (h ! r) = JUndefined"
    and "authorizationURL (h ! r) = JUndefined" and "tokenURL (h ! r) = JUndefined"
    and "scopeSeparator (h ! r) = JUndefined" and "customHeaders (h ! r) = JUndefined"
  shows "let config = (h ! r)
             \<lparr>authorizationURL := JStr ''https://www.dropbox.com/1/oauth2/authorize'',
              tokenURL := JStr ''https://api.dropbox.com/1/oauth2/token'',
              scopeSeparator := JStr '','',
              customHeaders := JObj []\<rparr>
         in Strategy OAuth2Strategy h (Some r) verify =
              (case OAuth2Strategy config verify of
                 Inl e \<Rightarrow> (Inl e, list_update h r config)
               | Inr client \<Rightarrow>
                  (Inr \<lparr>this_apiVersion = JStr ''1'', this_oauth2 = client,
                        this_name = ''dropbox-oauth2''\<rparr>, list_update h r config))"
proof -
  have acc: "accepted (apiVersion (h ! r))"
    using assms(2) by (simp add: accepted_def version_guard_def)
  have v: "version_of (apiVersion (h ! r)) = JStr ''1''"
    using assms(2) by (simp add: version_of_def)
  from Strategy_accepted [OF assms(1) acc, of OAuth2Strategy verify]
  obtain d where d: "defaultOptionsByApiVersion ''1'' = Some d"
    and eq: "Strategy OAuth2Strategy h (Some r) verify =
       (case OAuth2Strategy (resolved d (h ! r)) verify of
          Inl e \<Rightarrow> (Inl e, list_update h r (resolved d (h ! r)))
        | Inr client \<Rightarrow>
           (Inr \<lparr>this_apiVersion = JStr ''1'', this_oauth2 = client,
                 this_name = ''dropbox-oauth2''\<rparr>, list_update h r (resolved d (h ! r))))"
    unfolding v by auto
  have rd: "resolved d (h ! r) = (h ! r)
             \<lparr>authorizationURL := JStr ''https://www.dropbox.com/1/oauth2/authorize'',
              tokenURL := JStr ''https://api.dropbox.com/1/oauth2/token'',
              scopeSeparator := JStr '','',
              customHeaders := JObj []\<rparr>"
    using d assms(3-6) by (auto simp: defaultOptionsByApiVersion_def resolved_def)
  show ?thesis
    unfolding Let_def eq rd ..
qed

theorem C5_unset_version_gives_v1_defaults_witness:
  "(0::nat) < length [empty_options\<lparr>clientID := JStr ''key''\<rparr>]
   \<and> apiVersion ([empty_options\<lparr>clientID := JStr ''key''\<rparr>] ! 0) = JUndefined
   \<and> authorizationURL ([empty_options\<lparr>clientID := JStr ''key''\<rparr>] ! 0) = JUndefined
   \<and> tokenURL ([empty_options\<lparr>clientID := JStr ''key''\<rparr>] ! 0) = JUndefined
   \<and> scopeSeparator ([empty_options\<lparr>clientID := JStr ''key''\<rparr>] ! 0) = JUndefined
   \<and> customHeaders ([empty_options\<lparr>clientID := JStr ''key''\<rparr>] ! 0) = JUndefined
   \<and> Strategy (\<lambda>opts (v::unit). Inr example_client) [empty_options\<lparr>clientID := JStr ''key''\<rparr>] (Some 0) () =
       (Inr \<lparr>this_apiVersion = JStr ''1'', this_oauth2 = example_client, this_name = ''dropbox-oauth2''\<rparr>,
        [\<lparr>authorizationURL = JStr ''https://www.dropbox.com/1/oauth2/authorize'',
          tokenURL = JStr ''https://api.dropbox.com/1/oauth2/token'',
          scopeSeparator = JStr '','',
          customHeaders = JObj [],
          apiVersion = JUndefined, clientID = JStr ''key'',
          clientSecret = JUndefined, callbackURL = JUndefined\<rparr>])"
  using C5_unset_version_gives_v1_defaults [of 0 "[empty_options\<lparr>clientID := JStr ''key''\<rparr>]"
      "\<lambda>opts (v::unit). Inr example_client" "()"]
  by (simp add: empty_options_def Let_def)

text \<open>
  C6. A strategy of version \<open>'2'\<close> issues exactly one request for any access token:
  a POST to the get-current-account endpoint whose body is the four characters
  \<open>null\<close> and whose headers are the one \<open>Authorization\<close> header that the client's
  \<open>buildAuthHeader\<close> makes from the token.
\<close>

theorem C6_v2_request_shape:
  assumes "this_apiVersion this = JStr ''2''"
  shows "filter is_request (fst (userProfile JSON_parse this accessToken done)) =
           [OAuth2Request ''POST'' ''https://api.dropboxapi.com/2/users/get_current_account''
              [(''Authorization'', buildAuthHeader (this_oauth2 this) accessToken)] ''null'' accessToken]
         \<and> length ''null'' = 4"
  by (simp add: userProfile_v2 [OF assms] callback_no_request)

theorem C6_v2_request_shape_witness:
  "this_apiVersion \<lparr>this_apiVersion = JStr ''2'', this_oauth2 = example_client, this_name = ''dropbox-oauth2''\<rparr> = JStr ''2''
   \<and> filter is_request
         (fst (userProfile read_json
                 \<lparr>this_apiVersion = JStr ''2'', this_oauth2 = example_client, this_name = ''dropbox-oauth2''\<rparr>
                 ''token'' (\<lambda>e p. None))) =
       [OAuth2Request ''POST'' ''https://api.dropboxapi.com/2/users/get_current_account''
          [(''Authorization'', JStr ''Bearer token'')] ''null'' ''token'']"
  using C6_v2_request_shape [of "\<lparr>this_apiVersion = JStr ''2'', this_oauth2 = example_client, this_name = ''dropbox-oauth2''\<rparr>"
      read_json "''token''" "\<lambda>e p. None"]
  by (simp add: example_client_def)

text \<open>
  C7. Once the request is made: if the transport passes an error, the callback receives
  an \<open>InternalOAuthError\<close> with the message \<open>failed to fetch user profile\<close> and that
  error as its cause, and nothing is parsed; if the transport passes no error and the body
  does not parse, the body is parsed once and the callback receives the bare
  \<open>SyntaxError\<close>, which is no \<open>InternalOAuthError\<close>.
\<close>

theorem C7_transport_and_parse_errors:
  assumes "this_apiVersion this = JStr ''1'' \<or> this_apiVersion this = JStr ''2''"
  shows "(truthy (err (profile_response this accessToken)) \<longrightarrow>
            filter (\<lambda>e. \<not> is_request e) (fst (userProfile JSON_parse this accessToken done)) =
              [Done (Some (InternalOAuthError ''failed to fetch user profile''
                             (err (profile_response this accessToken)))) None])
       \<and> (\<not> truthy (err (profile_response this accessToken)) \<and>
            JSON_parse (body (profile_response this accessToken)) = None \<longrightarrow>
            filter (\<lambda>e. \<not> is_request e) (fst (userProfile JSON_parse this accessToken done)) =
              [JSONParse (body (profile_response this accessToken)), Done (Some SyntaxError) None])
       \<and> SyntaxError \<noteq> InternalOAuthError message cause"
  by (simp add: userProfile_after_request [OF assms] callback_error callback_parse_failure)

theorem C7_transport_and_parse_errors_witness:
  "truthy (err (profile_response
             \<lparr>this_apiVersion = JStr ''1'', this_oauth2 = failing_client, this_name = ''dropbox-oauth2''\<rparr> ''token''))
   \<and> filter (\<lambda>e. \<not> is_request e)
        (fst (userProfile read_json
                \<lparr>this_apiVersion = JStr ''1'', this_oauth2 = failing_client, this_name = ''dropbox-oauth2''\<rparr>
                ''token'' (\<lambda>e p. None))) =
       [Done (Some (InternalOAuthError ''failed to fetch user profile'' (JObj [(''statusCode'', JNum 401)]))) None]
   \<and> \<not> truthy (err (profile_response
             \<lparr>this_apiVersion = JStr ''2'', this_oauth2 = failing_client, this_name = ''dropbox-oauth2''\<rparr> ''token''))
   \<and> read_json (body (profile_response
             \<lparr>this_apiVersion = JStr ''2'', this_oauth2 = failing_client, this_name = ''dropbox-oauth2''\<rparr> ''token'')) = None
   \<and> filter (\<lambda>e. \<not> is_request e)
        (fst (userProfile read_json
                \<lparr>this_apiVersion = JStr ''2'', this_oauth2 = failing_client, this_name = ''dropbox-oauth2''\<rparr>
                ''token'' (\<lambda>e p. None))) =
       [JSONParse ''<html>'', Done (Some SyntaxError) None]"
proof -
  let ?s1 = "\<lparr>this_apiVersion = JStr ''1'', this_oauth2 = failing_client, this_name = ''dropbox-oauth2''\<rparr>"
  let ?s2 = "\<lparr>this_apiVersion = JStr ''2'', this_oauth2 = failing_client, this_name = ''dropbox-oauth2''\<rparr>"
  have r1: "profile_response ?s1 ''token'' = \<lparr>err = JObj [(''statusCode'', JNum 401)], body = []\<rparr>"
    by (simp add: profile_response_def failing_client_def)
  have r2: "profile_response ?s2 ''token'' = \<lparr>err = JNull, body = ''<html>''\<rparr>"
    by (simp add: profile_response_def failing_client_def)
  show ?thesis
    using C7_transport_and_parse_errors [of ?s1 "''token''" read_json "\<lambda>e p. None"]
          C7_transport_and_parse_errors [of ?s2 "''token''" read_json "\<lambda>e p. None"]
    by (simp add: r1 r2 read_html)
qed

text \<open>
  C8. For a strategy of version \<open>'1'\<close> or \<open>'2'\<close>, every profile that reaches the
  callback without an error has the provider \<open>dropbox\<close>, a name whose middle name is the
  empty string, and as its emails the one-element array holding the \<open>email\<close> property
  of the parsed response.
\<close>

theorem C8_profile_invariants:
  assumes "this_apiVersion this = JStr ''1'' \<or> this_apiVersion this = JStr ''2''"
    and "Done None (Some p) \<in> set (fst (userProfile JSON_parse this accessToken done))"
  shows "get_prop p ''provider'' = Inr (JStr ''dropbox'')
       \<and> (\<exists>n. get_prop p ''name'' = Inr n \<and> get_prop n ''middleName'' = Inr (JStr []))
       \<and> (\<exists>json email.
             JSON_parse (body (profile_response this accessToken)) = Some json \<and>
             get_prop json ''email'' = Inr email \<and>
             get_prop p ''emails'' = Inr (JArr [JObj [(''value'', email)]]))"
proof -
  from assms have "Done None (Some p) \<in>
      set (fst (profile_callback JSON_parse this done (profile_response this accessToken)))"
    by (auto simp: userProfile_v1 userProfile_v2)
  from callback_delivers [OF this] obtain json q where
    j: "JSON_parse (body (profile_response this accessToken)) = Some json"
    and q: "profile_fields (this_apiVersion this) json = Inr q"
    and p: "p = set_prop (set_prop q ''_raw'' (JStr (body (profile_response this accessToken)))) ''_json'' json"
    by blast
  from profile_fields_shape [OF assms(1) q] obtain i dn fam giv email where
    e: "get_prop json ''email'' = Inr email"
    and s: "q = JObj [(''provider'', JStr ''dropbox''), (''id'', i), (''displayName'', dn),
               (''name'', JObj [(''familyName'', fam), (''givenName'', giv), (''middleName'', JStr [])]),
               (''emails'', JArr [JObj [(''value'', email)]])]"
    by blast
  have "get_prop p ''provider'' = Inr (JStr ''dropbox'')"
    by (simp add: p s)
  moreover have "get_prop p ''name'' =
      Inr (JObj [(''familyName'', fam), (''givenName'', giv), (''middleName'', JStr [])])"
    by (simp add: p s)
  moreover have "get_prop (JObj [(''familyName'', fam), (''givenName'', giv), (''middleName'', JStr [])])
      ''middleName'' = Inr (JStr [])"
    by simp
  moreover have "get_prop p ''emails'' = Inr (JArr [JObj [(''value'', email)]])"
    by (simp add: p s)
  ultimately show ?thesis
    using j e by blast
qed

theorem C8_profile_invariants_witness:
  "let s = \<lparr>this_apiVersion = JStr ''1'', this_oauth2 = example_client, this_name = ''dropbox-oauth2''\<rparr>;
       p = JObj [(''provider'', JStr ''dropbox''), (''id'', JStr ''42''), (''displayName'', JStr ''A B''),
                 (''name'', JObj [(''familyName'', JStr ''B''), (''givenName'', JStr ''A''),
                                  (''middleName'', JStr [])]),
                 (''emails'', JArr [JObj [(''value'', JStr ''a@b.com'')]]),
                 (''_raw'', JStr example_body_v1),
                 (''_json'',
                    JObj [(''uid'', JStr ''42''), (''display_name'', JStr ''A B''),
                          (''name_details'', JObj [(''surname'', JStr ''B''), (''given_name'', JStr ''A'')]),
                          (''email'', JStr ''a@b.com'')])]
   in this_apiVersion s = JStr ''1''
      \<and> Done None (Some p) \<in> set (fst (userProfile read_json s ''token'' (\<lambda>e p. None)))
      \<and> get_prop p ''provider'' = Inr (JStr ''dropbox'')
      \<and> (\<exists>n. get_prop p ''name'' = Inr n \<and> get_prop n ''middleName'' = Inr (JStr []))
      \<and> get_prop p ''emails'' = Inr (JArr [JObj [(''value'', JStr ''a@b.com'')]])"
proof -
  define s where "s = \<lparr>this_apiVersion = JStr ''1'', this_oauth2 = example_client, this_name = ''dropbox-oauth2''\<rparr>"
  define p where "p = JObj [(''provider'', JStr ''dropbox''), (''id'', JStr ''42''), (''displayName'', JStr ''A B''),
                 (''name'', JObj [(''familyName'', JStr ''B''), (''givenName'', JStr ''A''),
                                  (''middleName'', JStr [])]),
                 (''emails'', JArr [JObj [(''value'', JStr ''a@b.com'')]]),
                 (''_raw'', JStr example_body_v1),
                 (''_json'',
                    JObj [(''uid'', JStr ''42''), (''display_name'', JStr ''A B''),
                          (''name_details'', JObj [(''surname'', JStr ''B''), (''given_name'', JStr ''A'')]),
                          (''email'', JStr ''a@b.com'')])]"
  have m: "Done None (Some p) \<in> set (fst (userProfile read_json s ''token'' (\<lambda>e p. None)))"
    unfolding s_def p_def by (simp add: example_v1_run)
  have v1: "this_apiVersion s = JStr ''1''" by (simp add: s_def)
  then have v: "this_apiVersion s = JStr ''1'' \<or> this_apiVersion s = JStr ''2''" ..
  have em: "get_prop p ''emails'' = Inr (JArr [JObj [(''value'', JStr ''a@b.com'')]])"
    by (simp add: p_def)
  from C8_profile_invariants [OF v m]
  have a: "get_prop p ''provider'' = Inr (JStr ''dropbox'')"
    and b: "\<exists>n. get_prop p ''name'' = Inr n \<and> get_prop n ''middleName'' = Inr (JStr [])"
    by blast+
  show ?thesis
    unfolding Let_def s_def [symmetric] p_def [symmetric]
    using v1 m a b em by blast
qed




text \<open>
  C10. When the constructor accepts the caller's options object, no new object is made:
  the object itself, at its place in the store, ends up with each of
  \<open>authorizationURL\<close>, \<open>tokenURL\<close>, \<open>scopeSeparator\<close> and \<open>customHeaders\<close>
  kept when truthy and overwritten with the table value of the version otherwise; so when
  one of them was unset or falsy the caller's object is no longer what it was.
\<close>

theorem C10_options_mutated_in_place:
  assumes "r < length h" and "accepted (apiVersion (h ! r))"
  shows "\<exists>k d. ToString (version_of (apiVersion (h ! r))) = Inr k
       \<and> defaultOptionsByApiVersion k = Some d
       \<and> snd (Strategy OAuth2Strategy h (Some r) verify) = list_update h r (resolved d (h ! r))
       \<and> length (snd (Strategy OAuth2Strategy h (Some r) verify)) = length h
       \<and> (\<not> truthy (authorizationURL (h ! r)) \<or> \<not> truthy (tokenURL (h ! r)) \<or>
          \<not> truthy (scopeSeparator (h ! r)) \<or> \<not> truthy (customHeaders (h ! r))
          \<longrightarrow> snd (Strategy OAuth2Strategy h (Some r) verify) ! r \<noteq> h ! r)"
proof -
  from Strategy_accepted [OF assms, of OAuth2Strategy verify]
  obtain k d where k: "ToString (version_of (apiVersion (h ! r))) = Inr k"
    and d: "defaultOptionsByApiVersion k = Some d"
    and eq: "Strategy OAuth2Strategy h (Some r) verify =
       (case OAuth2Strategy (resolved d (h ! r)) verify of
          Inl e \<Rightarrow> (Inl e, list_update h r (resolved d (h ! r)))
        | Inr client \<Rightarrow>
           (Inr \<lparr>this_apiVersion = version_of (apiVersion (h ! r)), this_oauth2 = client,
                 this_name = ''dropbox-oauth2''\<rparr>, list_update h r (resolved d (h ! r))))"
    by blast
  have s: "snd (Strategy OAuth2Strategy h (Some r) verify) = list_update h r (resolved d (h ! r))"
    unfolding eq by (simp split: sum.splits)
  have n: "list_update h r (resolved d (h ! r)) ! r = resolved d (h ! r)"
    using assms(1) by simp
  have c: "\<not> truthy (authorizationURL (h ! r)) \<or> \<not> truthy (tokenURL (h ! r)) \<or>
          \<not> truthy (scopeSeparator (h ! r)) \<or> \<not> truthy (customHeaders (h ! r))
          \<longrightarrow> resolved d (h ! r) \<noteq> h ! r"
    using default_truthy [OF d] resolved_changes [of d "h ! r"] by blast
  show ?thesis
    using k d c by (intro exI [of _ k] exI [of _ d]) (simp add: s n)
qed

theorem C10_options_mutated_in_place_witness:
  "let h = [empty_options\<lparr>apiVersion := JStr ''2'', tokenURL := JStr ''https://example.org/token''\<rparr>]
   in (0::nat) < length h \<and> accepted (apiVersion (h ! 0))
      \<and> \<not> truthy (authorizationURL (h ! 0))
      \<and> snd (Strategy (\<lambda>opts (v::unit). Inr example_client) h (Some 0) ()) =
          [\<lparr>authorizationURL = JStr ''https://www.dropbox.com/oauth2/authorize'',
            tokenURL = JStr ''https://example.org/token'',
            scopeSeparator = JStr '','',
            customHeaders = JObj [(''Content-Type'', JStr ''application/json'')],
            apiVersion = JStr ''2'', clientID = JUndefined,
            clientSecret = JUndefined, callbackURL = JUndefined\<rparr>]
      \<and> snd (Strategy (\<lambda>opts (v::unit). Inr example_client) h (Some 0) ()) ! 0 \<noteq> h ! 0"
proof -
  define h where "h = [empty_options\<lparr>apiVersion := JStr ''2'', tokenURL := JStr ''https://example.org/token''\<rparr>]"
  have l: "0 < length h" by (simp add: h_def)
  have a: "accepted (apiVersion (h ! 0))"
    by (simp add: h_def accepted_def version_guard_def toString_def supportedApiVersions_def)
  have f: "\<not> truthy (authorizationURL (h ! 0))"
    by (simp add: h_def empty_options_def)
  from C10_options_mutated_in_place [OF l a, of "\<lambda>opts (v::unit). Inr example_client" "()"]
  obtain k d where k: "ToString (version_of (apiVersion (h ! 0))) = Inr k"
    and d: "defaultOptionsByApiVersion k = Some d"
    and s: "snd (Strategy (\<lambda>opts (v::unit). Inr example_client) h (Some 0) ()) = list_update h 0 (resolved d (h ! 0))"
    and c: "snd (Strategy (\<lambda>opts (v::unit). Inr example_client) h (Some 0) ()) ! 0 \<noteq> h ! 0"
    using f by blast
  have d2: "d = \<lparr>authorizationURL = JStr ''https://www.dropbox.com/oauth2/authorize'',
              tokenURL = JStr ''https://api.dropbox.com/oauth2/token'',
              scopeSeparator = JStr '','',
              customHeaders = JObj [(''Content-Type'', JStr ''application/json'')]\<rparr>"
    using k d by (auto simp: h_def version_of_def defaultOptionsByApiVersion_def)
  have e: "list_update h 0 (resolved d (h ! 0)) =
          [\<lparr>authorizationURL = JStr ''https://www.dropbox.com/oauth2/authorize'',
            tokenURL = JStr ''https://example.org/token'',
            scopeSeparator = JStr '','',
            customHeaders = JObj [(''Content-Type'', JStr ''application/json'')],
            apiVersion = JStr ''2'', clientID = JUndefined,
            clientSecret = JUndefined, callbackURL = JUndefined\<rparr>]"
    unfolding d2 by (simp add: h_def resolved_def empty_options_def)
  show ?thesis
    unfolding Let_def h_def [symmetric]
    using l a f c s e by simp
qed

end
